theory Spec2Isabelle
  imports Complex_Main "HOL-Library.Log_Nat" "HOL-Library.Monad_Syntax"
begin

section \<open>Data model of BurnoutCalculator.tsx\<close>

text \<open>
  The component keeps three pieces of React state: the \<open>BurnoutInputs\<close> object and the
  two booleans \<open>showResults\<close> and \<open>isOpen\<close>. A TypeScript \<open>number\<close> is an IEEE 754
  binary64 value; a finite one is modelled by the real number it denotes. NaN and the two
  infinities are not values of the model, and the sign of a zero is not kept.
\<close>

record BurnoutInputs =
  hoursWorked :: real
  sleepHours :: real
  selfCareHours :: real

text \<open>The object literal \<open>{ level, color }\<close> returned by \<open>getRiskLevel\<close>.\<close>

record RiskLevel =
  level :: string
  color :: string

record ui_state =
  inputs :: BurnoutInputs
  showResults :: bool
  isOpen :: bool

text \<open>The three \<open>useState\<close> initial values (source lines 30 to 36).\<close>

definition initialState :: ui_state where
  "initialState =
     \<lparr>inputs = \<lparr>hoursWorked = 40, sleepHours = 7, selfCareHours = 5\<rparr>,
      showResults = False,
      isOpen = True\<rparr>"

section \<open>The risk scorer and its two classifiers\<close>

text \<open>
  \<open>calculateRiskScore\<close> closes over the current \<open>inputs\<close>; here they are its argument.
  This first definition reads source lines 41 to 48 in exact arithmetic, every operation
  without rounding; \<open>Math.max\<close> and \<open>Math.min\<close> are \<^const>\<open>max\<close> and \<^const>\<open>min\<close> on
  the reals. The definition \<open>calculateRiskScore64\<close> further down reads the same lines
  with every operation rounded as the program rounds it.
\<close>

definition calculateRiskScore :: "BurnoutInputs \<Rightarrow> real" where
  "calculateRiskScore inp =
     (let workLoad = hoursWorked inp / 40;
          sleepDeficit = (8 - sleepHours inp) / 8;
          selfCareDeficit = (10 - selfCareHours inp) / 10;
          score = (workLoad * 4 + sleepDeficit * 3 + selfCareDeficit * 3) / 10
      in min (max score 0) 1 * 10)"

definition getRiskLevel :: "real \<Rightarrow> RiskLevel" where
  "getRiskLevel score =
     (if score \<le> 3 then \<lparr>level = ''Low'', color = ''text-sage-500''\<rparr>
      else if score \<le> 6 then \<lparr>level = ''Moderate'', color = ''text-orange-500''\<rparr>
      else \<lparr>level = ''High'', color = ''text-red-500''\<rparr>)"

definition getBurnoutWindow :: "real \<Rightarrow> string" where
  "getBurnoutWindow score =
     (if score \<le> 3 then ''Low risk - maintain current balance''
      else if score \<le> 6 then ''4-8 weeks if patterns continue''
      else ''2-4 weeks if patterns continue'')"

section \<open>The component's event handlers\<close>

text \<open>
  Each handler of the component is a function on the component state. The three slider
  callbacks are the arrow functions passed as \<open>onValueChange\<close> (source lines 184, 212
  and 240); their argument here is \<open>value[0]\<close>. The expression
  \<open>!showResults && setInputs(...)\<close> calls the setter only when \<open>showResults\<close> is false.
\<close>

definition onHoursWorkedChange :: "ui_state \<Rightarrow> real \<Rightarrow> ui_state" where
  "onHoursWorkedChange st v =
     (if \<not> showResults st then st\<lparr>inputs := (inputs st)\<lparr>hoursWorked := v\<rparr>\<rparr> else st)"

definition onSleepHoursChange :: "ui_state \<Rightarrow> real \<Rightarrow> ui_state" where
  "onSleepHoursChange st v =
     (if \<not> showResults st then st\<lparr>inputs := (inputs st)\<lparr>sleepHours := v\<rparr>\<rparr> else st)"

definition onSelfCareHoursChange :: "ui_state \<Rightarrow> real \<Rightarrow> ui_state" where
  "onSelfCareHoursChange st v =
     (if \<not> showResults st then st\<lparr>inputs := (inputs st)\<lparr>selfCareHours := v\<rparr>\<rparr> else st)"

text \<open>The collapsible's \<open>onOpenChange\<close> is the state setter \<open>setIsOpen\<close> itself.\<close>

definition setIsOpen :: "ui_state \<Rightarrow> bool \<Rightarrow> ui_state" where
  "setIsOpen st b = st\<lparr>isOpen := b\<rparr>"

definition handleCalculate :: "ui_state \<Rightarrow> ui_state" where
  "handleCalculate st = st\<lparr>showResults := True, isOpen := False\<rparr>"

definition handleReset :: "ui_state \<Rightarrow> ui_state" where
  "handleReset st =
     st\<lparr>inputs := \<lparr>hoursWorked = 40, sleepHours = 7, selfCareHours = 5\<rparr>,
        showResults := False,
        isOpen := True\<rparr>"

text \<open>
  \<open>handleShare\<close> reads the score and the level, and talks to the browser (a new window, a
  download, a mail link, a toast). It calls none of the three state setters, so on the
  component state it is the identity.
\<close>

datatype platform = X | Linkedin | Download | Email

definition handleShare :: "ui_state \<Rightarrow> platform \<Rightarrow> ui_state" where
  "handleShare st p = st"

text \<open>
  The user interactions the rendered tree offers. The Calculate button is rendered only
  when \<open>showResults\<close> is false, the Reset button and the share buttons only when it is
  true (source lines 251 to 265 and 270); an interaction with a control that is not
  rendered does not exist, which is the result \<open>None\<close>. The sliders carry
  \<open>disabled={showResults}\<close>, but their callbacks are delivered here in every state, so
  that what protects the inputs is the guard inside the callback.
\<close>

datatype event =
    HoursWorkedChange real
  | SleepHoursChange real
  | SelfCareHoursChange real
  | OpenChange bool
  | CalculateClick
  | ResetClick
  | ShareClick platform

fun dispatch :: "ui_state \<Rightarrow> event \<Rightarrow> ui_state option" where
  "dispatch st (HoursWorkedChange v) = Some (onHoursWorkedChange st v)"
| "dispatch st (SleepHoursChange v) = Some (onSleepHoursChange st v)"
| "dispatch st (SelfCareHoursChange v) = Some (onSelfCareHoursChange st v)"
| "dispatch st (OpenChange b) = Some (setIsOpen st b)"
| "dispatch st CalculateClick =
     (if \<not> showResults st then Some (handleCalculate st) else None)"
| "dispatch st ResetClick =
     (if showResults st then Some (handleReset st) else None)"
| "dispatch st (ShareClick p) =
     (if showResults st then Some (handleShare st p) else None)"

fun run :: "ui_state \<Rightarrow> event list \<Rightarrow> ui_state option" where
  "run st [] = Some st"
| "run st (e # es) = (case dispatch st e of None \<Rightarrow> None | Some st' \<Rightarrow> run st' es)"

text \<open>
  The specification's two modes, read off the flag \<open>showResults\<close>: the results panel is
  rendered exactly when the flag is true.
\<close>

datatype ui_mode = Editing | Results

definition mode_of :: "ui_state \<Rightarrow> ui_mode" where
  "mode_of st = (if showResults st then Results else Editing)"

section \<open>The scorer in binary64 arithmetic\<close>







section \<open>Rounding to binary64\<close>




























section \<open>Properties of the scorer\<close>

text \<open>
  Claim C2. The score lies in the closed interval [0, 10] for every input triple, and the
  extreme triple (100, 0, 0) yields exactly 10.
\<close>

theorem calculateRiskScore_range:
  "0 \<le> calculateRiskScore inp
   \<and> calculateRiskScore inp \<le> 10
   \<and> calculateRiskScore \<lparr>hoursWorked = 100, sleepHours = 0, selfCareHours = 0\<rparr> = 10"
  by (simp add: calculateRiskScore_def Let_def)

text \<open>
  Claim C3, as the specification states it, fails: at (40, 8, 10) the two deficits are zero
  but the workload term is 40/40 * 4 = 4, so the score is not 0.
\<close>

theorem baseline_score_counterexample:
  "calculateRiskScore \<lparr>hoursWorked = 40, sleepHours = 8, selfCareHours = 10\<rparr> \<noteq> 0"
  by (simp add: calculateRiskScore_def)

text \<open>
  Claim C3, amended. For the triple (40, 8, 10), where the sleep and self-care deficits
  are zero, \<open>calculateRiskScore\<close> returns 4.
\<close>

theorem baseline_score_is_four:
  "calculateRiskScore \<lparr>hoursWorked = 40, sleepHours = 8, selfCareHours = 10\<rparr> = 4"
  by (simp add: calculateRiskScore_def)

text \<open>
  Claim C4. The score is monotone in each input separately: raising \<open>hoursWorked\<close> with
  the other two inputs fixed never lowers it, and raising \<open>sleepHours\<close> or
  \<open>selfCareHours\<close> with the other two fixed never raises it.
\<close>

theorem calculateRiskScore_monotone:
  "(hoursWorked inp \<le> h' \<longrightarrow>
      calculateRiskScore inp \<le> calculateRiskScore (inp\<lparr>hoursWorked := h'\<rparr>))
   \<and> (sleepHours inp \<le> s' \<longrightarrow>
      calculateRiskScore (inp\<lparr>sleepHours := s'\<rparr>) \<le> calculateRiskScore inp)
   \<and> (selfCareHours inp \<le> c' \<longrightarrow>
      calculateRiskScore (inp\<lparr>selfCareHours := c'\<rparr>) \<le> calculateRiskScore inp)"
proof (intro conjI impI)
  assume "hoursWorked inp \<le> h'"
  then show "calculateRiskScore inp \<le> calculateRiskScore (inp\<lparr>hoursWorked := h'\<rparr>)"
    unfolding calculateRiskScore_def Let_def
    by (intro mult_right_mono min.mono max.mono divide_right_mono add_mono) simp_all
next
  assume "sleepHours inp \<le> s'"
  then show "calculateRiskScore (inp\<lparr>sleepHours := s'\<rparr>) \<le> calculateRiskScore inp"
    unfolding calculateRiskScore_def Let_def
    by (intro mult_right_mono min.mono max.mono divide_right_mono add_mono) simp_all
next
  assume "selfCareHours inp \<le> c'"
  then show "calculateRiskScore (inp\<lparr>selfCareHours := c'\<rparr>) \<le> calculateRiskScore inp"
    unfolding calculateRiskScore_def Let_def
    by (intro mult_right_mono min.mono max.mono divide_right_mono add_mono) simp_all
qed

theorem calculateRiskScore_monotone_witness:
  "hoursWorked \<lparr>hoursWorked = 40, sleepHours = 7, selfCareHours = 5\<rparr> \<le> 60
   \<and> calculateRiskScore \<lparr>hoursWorked = 40, sleepHours = 7, selfCareHours = 5\<rparr>
       \<le> calculateRiskScore \<lparr>hoursWorked = 60, sleepHours = 7, selfCareHours = 5\<rparr>
   \<and> sleepHours \<lparr>hoursWorked = 40, sleepHours = 7, selfCareHours = 5\<rparr> \<le> 9
   \<and> calculateRiskScore \<lparr>hoursWorked = 40, sleepHours = 9, selfCareHours = 5\<rparr>
       \<le> calculateRiskScore \<lparr>hoursWorked = 40, sleepHours = 7, selfCareHours = 5\<rparr>
   \<and> selfCareHours \<lparr>hoursWorked = 40, sleepHours = 7, selfCareHours = 5\<rparr> \<le> 12
   \<and> calculateRiskScore \<lparr>hoursWorked = 40, sleepHours = 7, selfCareHours = 12\<rparr>
       \<le> calculateRiskScore \<lparr>hoursWorked = 40, sleepHours = 7, selfCareHours = 5\<rparr>"
  using calculateRiskScore_monotone
    [of "\<lparr>hoursWorked = 40, sleepHours = 7, selfCareHours = 5\<rparr>" 60 9 12]
  by simp

section \<open>Properties of the classifiers\<close>

text \<open>
  Claim C5. \<open>getRiskLevel\<close> splits the scores at 3 and 6 with each boundary in the lower
  tier: every score at most 3 is Low, every score above 3 and at most 6 is Moderate, every
  score above 6 is High; in particular 3.0 is Low, 3.01 is Moderate, 6.0 is Moderate and
  6.01 is High.
\<close>

theorem getRiskLevel_tiers:
  "(score \<le> 3 \<longrightarrow> level (getRiskLevel score) = ''Low'')
   \<and> (3 < score \<and> score \<le> 6 \<longrightarrow> level (getRiskLevel score) = ''Moderate'')
   \<and> (6 < score \<longrightarrow> level (getRiskLevel score) = ''High'')
   \<and> level (getRiskLevel 3.0) = ''Low''
   \<and> level (getRiskLevel 3.01) = ''Moderate''
   \<and> level (getRiskLevel 6.0) = ''Moderate''
   \<and> level (getRiskLevel 6.01) = ''High''"
  by (simp add: getRiskLevel_def)

theorem getRiskLevel_tiers_witness:
  "(0.125::real) \<le> 3 \<and> level (getRiskLevel 0.125) = ''Low''
   \<and> (3::real) < 5.875 \<and> (5.875::real) \<le> 6 \<and> level (getRiskLevel 5.875) = ''Moderate''
   \<and> (6::real) < 9.15 \<and> level (getRiskLevel 9.15) = ''High''"
  using getRiskLevel_tiers [of "0.125"] getRiskLevel_tiers [of "5.875"]
    getRiskLevel_tiers [of "9.15"]
  by simp

text \<open>
  Claim C6. \<open>getBurnoutWindow\<close> maps every score at most 3 to
  "Low risk - maintain current balance", every score above 3 and at most 6 to
  "4-8 weeks if patterns continue" and every score above 6 to
  "2-4 weeks if patterns continue"; its tiers are those of \<open>getRiskLevel\<close>.
\<close>

theorem getBurnoutWindow_tiers:
  "(score \<le> 3 \<longrightarrow> getBurnoutWindow score = ''Low risk - maintain current balance'')
   \<and> (3 < score \<and> score \<le> 6 \<longrightarrow>
        getBurnoutWindow score = ''4-8 weeks if patterns continue'')
   \<and> (6 < score \<longrightarrow> getBurnoutWindow score = ''2-4 weeks if patterns continue'')
   \<and> ((getBurnoutWindow score = ''Low risk - maintain current balance'')
        = (level (getRiskLevel score) = ''Low''))
   \<and> ((getBurnoutWindow score = ''4-8 weeks if patterns continue'')
        = (level (getRiskLevel score) = ''Moderate''))
   \<and> ((getBurnoutWindow score = ''2-4 weeks if patterns continue'')
        = (level (getRiskLevel score) = ''High''))"
  by (simp add: getBurnoutWindow_def getRiskLevel_def)

theorem getBurnoutWindow_tiers_witness:
  "(3::real) \<le> 3 \<and> getBurnoutWindow 3 = ''Low risk - maintain current balance''
   \<and> (3::real) < 6 \<and> (6::real) \<le> 6 \<and> getBurnoutWindow 6 = ''4-8 weeks if patterns continue''
   \<and> (6::real) < 6.01 \<and> getBurnoutWindow 6.01 = ''2-4 weeks if patterns continue''"
  using getBurnoutWindow_tiers [of 3] getBurnoutWindow_tiers [of 6]
    getBurnoutWindow_tiers [of "6.01"]
  by simp


text \<open>
  Claim C10. The inputs the session starts with, (40, 7, 5), score 5.875, which
  \<open>getRiskLevel\<close> classifies as Moderate: the defaults are not the triple (40, 8, 10) with
  zero deficits, and their score is neither zero nor Low.
\<close>

theorem default_inputs_score:
  "inputs initialState = \<lparr>hoursWorked = 40, sleepHours = 7, selfCareHours = 5\<rparr>
   \<and> calculateRiskScore (inputs initialState) = 5.875
   \<and> level (getRiskLevel (calculateRiskScore (inputs initialState))) = ''Moderate''
   \<and> inputs initialState \<noteq> \<lparr>hoursWorked = 40, sleepHours = 8, selfCareHours = 10\<rparr>
   \<and> calculateRiskScore (inputs initialState) \<noteq> 0
   \<and> level (getRiskLevel (calculateRiskScore (inputs initialState))) \<noteq> ''Low''"
  by (simp add: initialState_def calculateRiskScore_def getRiskLevel_def)

section \<open>Properties of the component state\<close>

text \<open>
  Claim C8. From any state, whatever the inputs and whichever the mode, \<open>handleReset\<close>
  sets the inputs to exactly (40, 7, 5) and leaves the component in editing mode, with the
  results no longer shown; the state it produces is the one the session starts in.
\<close>

theorem handleReset_restores_defaults:
  "inputs (handleReset st) = \<lparr>hoursWorked = 40, sleepHours = 7, selfCareHours = 5\<rparr>
   \<and> \<not> showResults (handleReset st)
   \<and> mode_of (handleReset st) = Editing
   \<and> handleReset st = initialState"
  by (simp add: handleReset_def mode_of_def initialState_def)

lemma dispatch_mode_change:
  assumes "dispatch st e = Some st'" and "mode_of st' \<noteq> mode_of st"
  shows "(mode_of st = Editing \<and> e = CalculateClick \<and> mode_of st' = Results)
         \<or> (mode_of st = Results \<and> e = ResetClick \<and> mode_of st' = Editing)"
  using assms
  by (cases e)
     (auto simp: mode_of_def onHoursWorkedChange_def onSleepHoursChange_def
        onSelfCareHoursChange_def setIsOpen_def handleCalculate_def handleReset_def
        handleShare_def
      split: if_splits)

lemma dispatch_frozen:
  assumes "showResults st" and "dispatch st e = Some st'" and "e \<noteq> ResetClick"
  shows "inputs st' = inputs st \<and> showResults st'"
  using assms
  by (cases e)
     (auto simp: onHoursWorkedChange_def onSleepHoursChange_def
        onSelfCareHoursChange_def setIsOpen_def handleShare_def)

lemma run_frozen:
  "showResults st \<Longrightarrow> ResetClick \<notin> set es \<Longrightarrow> run st es = Some st'
     \<Longrightarrow> inputs st' = inputs st \<and> showResults st'"
proof (induction es arbitrary: st)
  case Nil
  then show ?case by simp
next
  case (Cons e es)
  from Cons.prems obtain mid where mid: "dispatch st e = Some mid" "run mid es = Some st'"
    by (auto split: option.splits)
  from Cons.prems have ne: "e \<noteq> ResetClick" and rest: "ResetClick \<notin> set es"
    by auto
  from dispatch_frozen [OF Cons.prems(1) mid(1) ne]
  have keep: "inputs mid = inputs st" and shown: "showResults mid"
    by simp_all
  from Cons.IH [OF shown rest mid(2)] keep show ?case
    by simp
qed

lemma results_is_flag: "(mode_of st = Results) = showResults st"
  by (simp add: mode_of_def)

text \<open>
  Claim C9. The component is a machine over the two modes Editing and Results. A step
  that changes the mode is either the Calculate click, from Editing to Results, or the
  Reset click, from Results to Editing; both steps exist, and the Calculate click leaves
  the inputs as they are. In Results mode every interaction other than the Reset click,
  a slider change included, leaves the inputs unchanged and stays in Results mode, and so
  does every sequence of interactions without a Reset click: the inputs do not change
  between the freeze and the reset.
\<close>

theorem ui_two_state_machine:
  "(dispatch st e = Some st' \<and> mode_of st' \<noteq> mode_of st \<longrightarrow>
      (mode_of st = Editing \<and> e = CalculateClick \<and> mode_of st' = Results)
      \<or> (mode_of st = Results \<and> e = ResetClick \<and> mode_of st' = Editing))
   \<and> (mode_of st = Editing \<longrightarrow>
        (\<exists>t. dispatch st CalculateClick = Some t \<and> mode_of t = Results
           \<and> inputs t = inputs st))
   \<and> (mode_of st = Results \<longrightarrow>
        (\<exists>t. dispatch st ResetClick = Some t \<and> mode_of t = Editing))
   \<and> (mode_of st = Results \<and> dispatch st e = Some st' \<and> e \<noteq> ResetClick \<longrightarrow>
        inputs st' = inputs st \<and> mode_of st' = Results)
   \<and> (mode_of st = Results \<and> ResetClick \<notin> set es \<and> run st es = Some fin \<longrightarrow>
        inputs fin = inputs st \<and> mode_of fin = Results)"
proof (intro conjI impI)
  assume "dispatch st e = Some st' \<and> mode_of st' \<noteq> mode_of st"
  then show "(mode_of st = Editing \<and> e = CalculateClick \<and> mode_of st' = Results)
      \<or> (mode_of st = Results \<and> e = ResetClick \<and> mode_of st' = Editing)"
    using dispatch_mode_change by blast
next
  assume "mode_of st = Editing"
  then have "\<not> showResults st"
    by (simp add: mode_of_def split: if_splits)
  then show "\<exists>t. dispatch st CalculateClick = Some t \<and> mode_of t = Results
      \<and> inputs t = inputs st"
    by (simp add: handleCalculate_def mode_of_def)
next
  assume "mode_of st = Results"
  then have "showResults st"
    by (simp add: results_is_flag)
  then show "\<exists>t. dispatch st ResetClick = Some t \<and> mode_of t = Editing"
    by (simp add: handleReset_def mode_of_def)
next
  assume a: "mode_of st = Results \<and> dispatch st e = Some st' \<and> e \<noteq> ResetClick"
  then have "inputs st' = inputs st \<and> showResults st'"
    using dispatch_frozen [of st e st'] by (simp add: results_is_flag)
  then show "inputs st' = inputs st" and "mode_of st' = Results"
    by (simp_all add: results_is_flag)
next
  assume a: "mode_of st = Results \<and> ResetClick \<notin> set es \<and> run st es = Some fin"
  then have "inputs fin = inputs st \<and> showResults fin"
    using run_frozen [of st es fin] by (simp add: results_is_flag)
  then show "inputs fin = inputs st" and "mode_of fin = Results"
    by (simp_all add: results_is_flag)
qed

theorem ui_two_state_machine_witness:
  "mode_of initialState = Editing
   \<and> dispatch initialState CalculateClick = Some (handleCalculate initialState)
   \<and> mode_of (handleCalculate initialState) \<noteq> mode_of initialState
   \<and> mode_of (handleCalculate initialState) = Results
   \<and> inputs (handleCalculate initialState) = inputs initialState
   \<and> dispatch (handleCalculate initialState) (HoursWorkedChange 80)
       = Some (handleCalculate initialState)
   \<and> HoursWorkedChange 80 \<noteq> ResetClick
   \<and> ResetClick \<notin> set [HoursWorkedChange 80, SleepHoursChange 2, OpenChange True,
                          ShareClick Email, SelfCareHoursChange 0]
   \<and> run (handleCalculate initialState)
         [HoursWorkedChange 80, SleepHoursChange 2, OpenChange True,
          ShareClick Email, SelfCareHoursChange 0]
       = Some (setIsOpen (handleCalculate initialState) True)
   \<and> inputs (setIsOpen (handleCalculate initialState) True) = inputs initialState
   \<and> mode_of (setIsOpen (handleCalculate initialState) True) = Results
   \<and> dispatch (handleCalculate initialState) ResetClick = Some initialState
   \<and> mode_of initialState \<noteq> mode_of (handleCalculate initialState)"
  using
    ui_two_state_machine
      [of initialState CalculateClick "handleCalculate initialState" "[]" initialState]
    ui_two_state_machine
      [of "handleCalculate initialState" "HoursWorkedChange 80"
          "handleCalculate initialState"
          "[HoursWorkedChange 80, SleepHoursChange 2, OpenChange True,
            ShareClick Email, SelfCareHoursChange 0]"
          "setIsOpen (handleCalculate initialState) True"]
    ui_two_state_machine
      [of "handleCalculate initialState" ResetClick initialState "[]"
          "handleCalculate initialState"]
  by (simp add: initialState_def handleCalculate_def handleReset_def handleShare_def
        setIsOpen_def onHoursWorkedChange_def onSleepHoursChange_def
        onSelfCareHoursChange_def mode_of_def)

end
